theory Spec2Isabelle
  imports Complex_Main "HOL-Library.DAList"
begin

section \<open>The air-quality index conversion (PurpleAirDisplay.tsx)\<close>

text \<open>
  \<^verbatim>\<open>Math.round(x)\<close> is the integer nearest to \<open>x\<close>, a tie going towards
  \<open>+\<infinity>\<close>: the floor of \<open>x + 1/2\<close>.

  JavaScript numbers are IEEE doubles. The conversion is modelled in exact real
  arithmetic: the constants \<open>12.0\<close>, \<open>35.4\<close>, ... are the decimal fractions
  the source writes, and \<open>+\<close>, \<open>-\<close>, \<open>*\<close>, \<open>/\<close> are exact.
\<close>

definition Math_round :: "real \<Rightarrow> int" where
  "Math_round x = \<lfloor>x + 1 / 2\<rfloor>"

definition calculateAQI :: "real \<Rightarrow> int" where
  "calculateAQI pm25 =
     (if pm25 \<le> 12.0 then Math_round ((50 / 12.0) * pm25)
      else if pm25 \<le> 35.4 then Math_round (((100 - 51) / (35.4 - 12.1)) * (pm25 - 12.1) + 51)
      else if pm25 \<le> 55.4 then Math_round (((150 - 101) / (55.4 - 35.5)) * (pm25 - 35.5) + 101)
      else Math_round (((200 - 151) / (150.4 - 55.5)) * (pm25 - 55.5) + 151))"

section \<open>The proxy endpoint (app/api/purple-air/[sensorId]/route.ts)\<close>

text \<open>
  The file holds two revisions of the route. They share \<open>checkRateLimit\<close> and
  \<open>getCachedData\<close> word for word. The first revision sweeps both tables from a
  \<^verbatim>\<open>setInterval\<close> callback; the second has no timer and runs the same two loops at
  the start of \<open>setCachedData\<close>. The second revision also reads the header
  \<^verbatim>\<open>x-real-ip\<close> when \<^verbatim>\<open>x-forwarded-for\<close> is missing. Definitions of the second
  revision carry the suffix \<open>_v2\<close>.
\<close>

subsection \<open>Data\<close>

text \<open>The upstream payload, as the second revision declares it (\<^verbatim>\<open>interface PurpleAirData\<close>);
  the first revision leaves it untyped (\<^verbatim>\<open>any\<close>), and the model takes the declared type
  for both. It is an object, so a test \<^verbatim>\<open>if (cachedData)\<close> on a value of type
  \<^verbatim>\<open>PurpleAirData | null\<close> is the test for \<^verbatim>\<open>null\<close>.\<close>

record SensorStats =
  pm2_5_10minute :: real

record Sensor =
  stats :: SensorStats
  temperature :: real
  humidity :: real

record PurpleAirData =
  sensor :: Sensor

text \<open>Counts and \<^verbatim>\<open>Date.now()\<close> readings (milliseconds) are integers.\<close>

record RateLimitEntry =
  count :: int
  timestamp :: int

record CacheEntry =
  data :: PurpleAirData
  cache_timestamp :: int

text \<open>
  A JavaScript \<^verbatim>\<open>Map<string, V>\<close> keeps one value per key, in insertion order:
  an association list with distinct keys. \<^verbatim>\<open>get\<close> is \<^const>\<open>DAList.lookup\<close>,
  \<^verbatim>\<open>set\<close> is \<^const>\<open>DAList.update\<close> (a present key keeps its place, a new
  one goes last), \<^verbatim>\<open>delete\<close> is \<^const>\<open>DAList.delete\<close>, \<^verbatim>\<open>entries()\<close> is
  \<^const>\<open>DAList.impl_of\<close>.
\<close>

record state =
  rateLimit :: "(string, RateLimitEntry) alist"
  cache :: "(string, CacheEntry) alist"

definition initial :: state where
  "initial = \<lparr>rateLimit = DAList.empty, cache = DAList.empty\<rparr>"

definition RATE_LIMIT_WINDOW :: int where
  "RATE_LIMIT_WINDOW = 300000"

definition MAX_REQUESTS :: int where
  "MAX_REQUESTS = 10"

definition CACHE_DURATION :: int where
  "CACHE_DURATION = 1800000"

subsection \<open>Rate limiter and cache\<close>

text \<open>Every function takes the reading of \<^verbatim>\<open>Date.now()\<close> it makes as its first
  argument and returns the tables as it leaves them.\<close>

definition checkRateLimit :: "int \<Rightarrow> string \<Rightarrow> state \<Rightarrow> bool \<times> state" where
  "checkRateLimit now ip s =
     (case DAList.lookup (rateLimit s) ip of
        None \<Rightarrow>
          (True, s\<lparr>rateLimit := DAList.update ip \<lparr>count = 1, timestamp = now\<rparr> (rateLimit s)\<rparr>)
      | Some userRateLimit \<Rightarrow>
          if now - timestamp userRateLimit > RATE_LIMIT_WINDOW then
            (True, s\<lparr>rateLimit := DAList.update ip \<lparr>count = 1, timestamp = now\<rparr> (rateLimit s)\<rparr>)
          else if count userRateLimit < MAX_REQUESTS then
            (True, s\<lparr>rateLimit :=
               DAList.update ip
                 \<lparr>count = count userRateLimit + 1, timestamp = timestamp userRateLimit\<rparr>
                 (rateLimit s)\<rparr>)
          else (False, s))"

definition getCachedData :: "int \<Rightarrow> string \<Rightarrow> state \<Rightarrow> PurpleAirData option \<times> state" where
  "getCachedData now sensorId s =
     (case DAList.lookup (cache s) sensorId of
        None \<Rightarrow> (None, s)
      | Some cachedItem \<Rightarrow>
          if now - cache_timestamp cachedItem < CACHE_DURATION then (Some (data cachedItem), s)
          else (None, s\<lparr>cache := DAList.delete sensorId (cache s)\<rparr>))"

definition setCachedData :: "int \<Rightarrow> string \<Rightarrow> PurpleAirData \<Rightarrow> state \<Rightarrow> state" where
  "setCachedData now sensorId d s =
     s\<lparr>cache := DAList.update sensorId \<lparr>data = d, cache_timestamp = now\<rparr> (cache s)\<rparr>"

text \<open>
  The two clean-up loops. Each walks the entries of its table and deletes the key of
  every entry it finds expired. Deleting the entry under the iterator does not disturb
  the iteration, so the loop visits the entries the table had when it started: the
  first argument is that list of entries, the second the table being emptied.
\<close>

fun sweepRateLimit ::
  "int \<Rightarrow> (string \<times> RateLimitEntry) list \<Rightarrow> (string, RateLimitEntry) alist
     \<Rightarrow> (string, RateLimitEntry) alist" where
  "sweepRateLimit now [] tbl = tbl"
| "sweepRateLimit now ((ip, d) # rest) tbl =
     sweepRateLimit now rest
       (if now - timestamp d > RATE_LIMIT_WINDOW then DAList.delete ip tbl else tbl)"

fun sweepCache ::
  "int \<Rightarrow> (string \<times> CacheEntry) list \<Rightarrow> (string, CacheEntry) alist
     \<Rightarrow> (string, CacheEntry) alist" where
  "sweepCache now [] tbl = tbl"
| "sweepCache now ((sensorId, d) # rest) tbl =
     sweepCache now rest
       (if now - cache_timestamp d > CACHE_DURATION then DAList.delete sensorId tbl else tbl)"

text \<open>The callback the first revision hands to \<^verbatim>\<open>setInterval(..., 300_000)\<close>.\<close>

definition cleanup :: "int \<Rightarrow> state \<Rightarrow> state" where
  "cleanup now s =
     (let rl = sweepRateLimit now (DAList.impl_of (rateLimit s)) (rateLimit s);
          c = sweepCache now (DAList.impl_of (cache s)) (cache s)
      in s\<lparr>rateLimit := rl, cache := c\<rparr>)"

text \<open>The second revision's \<open>setCachedData\<close>: both loops, then the store, all with one
  reading of the clock.\<close>

definition setCachedData_v2 :: "int \<Rightarrow> string \<Rightarrow> PurpleAirData \<Rightarrow> state \<Rightarrow> state" where
  "setCachedData_v2 now sensorId d s =
     (let rl = sweepRateLimit now (DAList.impl_of (rateLimit s)) (rateLimit s);
          c = sweepCache now (DAList.impl_of (cache s)) (cache s)
      in s\<lparr>rateLimit := rl,
           cache := DAList.update sensorId \<lparr>data = d, cache_timestamp = now\<rparr> c\<rparr>)"

subsection \<open>The request handler\<close>

text \<open>
  What a request meets outside the two tables: the clock, the environment variable and
  the upstream service. \<^verbatim>\<open>await fetch(url, {headers})\<close> either rejects (a
  transport-level error) or resolves to a response with its \<^verbatim>\<open>ok\<close> flag;
  \<^verbatim>\<open>await response.json()\<close> either rejects (the body is not JSON) or resolves
  to the payload. A body whose transfer breaks off is a transport-level error too and
  is counted under \<open>NetworkError\<close>: both end in the same \<^verbatim>\<open>catch\<close>.
\<close>

datatype body_read = NotJson | Json PurpleAirData

datatype fetch_result = NetworkError | Response bool body_read

record world =
  now_check :: int
  now_get :: int
  now_set :: int
  PURPLE_AIR_API_KEY :: "string option"
  fetch :: "string \<Rightarrow> string \<Rightarrow> fetch_result"

text \<open>\<open>now_check\<close>, \<open>now_get\<close> and \<open>now_set\<close> are the readings of
  \<^verbatim>\<open>Date.now()\<close> inside \<open>checkRateLimit\<close>, \<open>getCachedData\<close> and
  \<open>setCachedData\<close>; \<open>fetch w url key\<close> is what the upstream answers to a request
  for \<open>url\<close> carrying the header \<^verbatim>\<open>X-API-Key: key\<close>.\<close>

record request =
  headers :: "string \<Rightarrow> string option"
  sensorId :: string

datatype json_body = Payload PurpleAirData | Error string

record NextResponse =
  status :: nat
  body :: json_body

text \<open>The handler's result: the response, the upstream calls it made (URL and key, in
  order) and the tables as it leaves them.\<close>

record outcome =
  response :: NextResponse
  fetched :: "(string \<times> string) list"
  tables :: state

text \<open>\<^verbatim>\<open>a || b\<close> on a string that may be missing: \<^verbatim>\<open>null\<close>, \<^verbatim>\<open>undefined\<close> and
  the empty string are falsy.\<close>

definition or_else :: "string option \<Rightarrow> string \<Rightarrow> string" where
  "or_else a b = (case a of None \<Rightarrow> b | Some v \<Rightarrow> if v = [] then b else v)"

definition rateLimited :: NextResponse where
  "rateLimited = \<lparr>status = 429, body = Error ''Rate limit exceeded. Please try again later.''\<rparr>"

definition fetchFailed :: NextResponse where
  "fetchFailed = \<lparr>status = 500, body = Error ''Failed to fetch sensor data''\<rparr>"

definition json :: "PurpleAirData \<Rightarrow> NextResponse" where
  "json d = \<lparr>status = 200, body = Payload d\<rparr>"

text \<open>
  The handler, first revision. The \<^verbatim>\<open>console.error\<close> of the \<^verbatim>\<open>catch\<close> branch
  writes to the log only and is left out. The three exits of the \<^verbatim>\<open>try\<close> block into
  \<^verbatim>\<open>catch\<close> (\<^verbatim>\<open>fetch\<close> rejects, the explicit \<^verbatim>\<open>throw\<close> on \<^verbatim>\<open>!response.ok\<close>,
  \<^verbatim>\<open>response.json()\<close> rejects) are the three branches that answer \<open>fetchFailed\<close>.
\<close>

definition GET :: "world \<Rightarrow> request \<Rightarrow> state \<Rightarrow> outcome" where
  "GET w req s =
     (let ip = or_else (headers req ''x-forwarded-for'') ''unknown''
      in
        (case checkRateLimit (now_check w) ip s of
           (False, s1) \<Rightarrow> \<lparr>response = rateLimited, fetched = [], tables = s1\<rparr>
         | (True, s1) \<Rightarrow>
             (case getCachedData (now_get w) (sensorId req) s1 of
                (Some cachedData, s2) \<Rightarrow> \<lparr>response = json cachedData, fetched = [], tables = s2\<rparr>
              | (None, s2) \<Rightarrow>
                  (let url = ''https://api.purpleair.com/v1/sensors/'' @ sensorId req;
                       key = or_else (PURPLE_AIR_API_KEY w) []
                   in case fetch w url key of
                        NetworkError \<Rightarrow>
                          \<lparr>response = fetchFailed, fetched = [(url, key)], tables = s2\<rparr>
                      | Response ok b \<Rightarrow>
                          if \<not> ok then
                            \<lparr>response = fetchFailed, fetched = [(url, key)], tables = s2\<rparr>
                          else
                            (case b of
                               NotJson \<Rightarrow>
                                 \<lparr>response = fetchFailed, fetched = [(url, key)], tables = s2\<rparr>
                             | Json d \<Rightarrow>
                                 \<lparr>response = json d, fetched = [(url, key)],
                                  tables = setCachedData (now_set w) (sensorId req) d s2\<rparr>)))))"

text \<open>The handler, second revision: another header to fall back on, and the
  \<open>setCachedData\<close> that sweeps.\<close>

definition GET_v2 :: "world \<Rightarrow> request \<Rightarrow> state \<Rightarrow> outcome" where
  "GET_v2 w req s =
     (let ip = or_else (headers req ''x-forwarded-for'')
                 (or_else (headers req ''x-real-ip'') ''unknown'')
      in
        (case checkRateLimit (now_check w) ip s of
           (False, s1) \<Rightarrow> \<lparr>response = rateLimited, fetched = [], tables = s1\<rparr>
         | (True, s1) \<Rightarrow>
             (case getCachedData (now_get w) (sensorId req) s1 of
                (Some cachedData, s2) \<Rightarrow> \<lparr>response = json cachedData, fetched = [], tables = s2\<rparr>
              | (None, s2) \<Rightarrow>
                  (let url = ''https://api.purpleair.com/v1/sensors/'' @ sensorId req;
                       key = or_else (PURPLE_AIR_API_KEY w) []
                   in case fetch w url key of
                        NetworkError \<Rightarrow>
                          \<lparr>response = fetchFailed, fetched = [(url, key)], tables = s2\<rparr>
                      | Response ok b \<Rightarrow>
                          if \<not> ok then
                            \<lparr>response = fetchFailed, fetched = [(url, key)], tables = s2\<rparr>
                          else
                            (case b of
                               NotJson \<Rightarrow>
                                 \<lparr>response = fetchFailed, fetched = [(url, key)], tables = s2\<rparr>
                             | Json d \<Rightarrow>
                                 \<lparr>response = json d, fetched = [(url, key)],
                                  tables = setCachedData_v2 (now_set w) (sensorId req) d s2\<rparr>)))))"

subsection \<open>Vocabulary of the properties\<close>

text \<open>The client identifier each revision computes.\<close>

definition clientIp :: "request \<Rightarrow> string" where
  "clientIp req = or_else (headers req ''x-forwarded-for'') ''unknown''"

definition clientIp_v2 :: "request \<Rightarrow> string" where
  "clientIp_v2 req =
     or_else (headers req ''x-forwarded-for'') (or_else (headers req ''x-real-ip'') ''unknown'')"

text \<open>
  From the rate check on, the two revisions of \<open>GET\<close> are the same text; they differ in
  the client identifier and in the \<open>setCachedData\<close> they call. \<open>serve\<close> is that
  common text with the two as arguments; the proofs go through it.
\<close>

definition serve ::
  "(int \<Rightarrow> string \<Rightarrow> PurpleAirData \<Rightarrow> state \<Rightarrow> state) \<Rightarrow> string \<Rightarrow> world \<Rightarrow> request \<Rightarrow> state
     \<Rightarrow> outcome" where
  "serve store ip w req s =
     (case checkRateLimit (now_check w) ip s of
        (False, s1) \<Rightarrow> \<lparr>response = rateLimited, fetched = [], tables = s1\<rparr>
      | (True, s1) \<Rightarrow>
          (case getCachedData (now_get w) (sensorId req) s1 of
             (Some cachedData, s2) \<Rightarrow> \<lparr>response = json cachedData, fetched = [], tables = s2\<rparr>
           | (None, s2) \<Rightarrow>
               (let url = ''https://api.purpleair.com/v1/sensors/'' @ sensorId req;
                    key = or_else (PURPLE_AIR_API_KEY w) []
                in case fetch w url key of
                     NetworkError \<Rightarrow>
                       \<lparr>response = fetchFailed, fetched = [(url, key)], tables = s2\<rparr>
                   | Response ok b \<Rightarrow>
                       if \<not> ok then
                         \<lparr>response = fetchFailed, fetched = [(url, key)], tables = s2\<rparr>
                       else
                         (case b of
                            NotJson \<Rightarrow>
                              \<lparr>response = fetchFailed, fetched = [(url, key)], tables = s2\<rparr>
                          | Json d \<Rightarrow>
                              \<lparr>response = json d, fetched = [(url, key)],
                               tables = store (now_set w) (sensorId req) d s2\<rparr>))))"

text \<open>A property of "the handler" is stated for both revisions at once.\<close>

datatype revision = First | Second

fun handler :: "revision \<Rightarrow> world \<Rightarrow> request \<Rightarrow> state \<Rightarrow> outcome" where
  "handler First = GET"
| "handler Second = GET_v2"

fun client :: "revision \<Rightarrow> request \<Rightarrow> string" where
  "client First = clientIp"
| "client Second = clientIp_v2"

fun put :: "revision \<Rightarrow> int \<Rightarrow> string \<Rightarrow> PurpleAirData \<Rightarrow> state \<Rightarrow> state" where
  "put First = setCachedData"
| "put Second = setCachedData_v2"

text \<open>The URL and the key of the upstream call for a request.\<close>

definition upstreamCall :: "world \<Rightarrow> request \<Rightarrow> string \<times> string" where
  "upstreamCall w req =
     (''https://api.purpleair.com/v1/sensors/'' @ sensorId req, or_else (PURPLE_AIR_API_KEY w) [])"

definition upstream :: "world \<Rightarrow> request \<Rightarrow> fetch_result" where
  "upstream w req = fetch w (fst (upstreamCall w req)) (snd (upstreamCall w req))"

text \<open>One client calling the rate limiter once at each of the given clock readings.\<close>

fun checkRateLimit_seq :: "string \<Rightarrow> int list \<Rightarrow> state \<Rightarrow> bool list \<times> state" where
  "checkRateLimit_seq ip [] s = ([], s)"
| "checkRateLimit_seq ip (now # nows) s =
     (case checkRateLimit now ip s of
        (b, s1) \<Rightarrow> (case checkRateLimit_seq ip nows s1 of (bs, s2) \<Rightarrow> (b # bs, s2)))"

text \<open>The first call of a client opens a window when the table has no entry for the
  client or an entry whose window has passed: the call then records count 1 and its own
  reading of the clock as the start of the window.\<close>

definition opensWindow :: "int \<Rightarrow> string \<Rightarrow> state \<Rightarrow> bool" where
  "opensWindow now ip s =
     (case DAList.lookup (rateLimit s) ip of
        None \<Rightarrow> True
      | Some userRateLimit \<Rightarrow> now - timestamp userRateLimit > RATE_LIMIT_WINDOW)"

text \<open>Every count in the rate-limit table lies between 1 and \<open>MAX_REQUESTS\<close>.\<close>

definition countsInRange :: "state \<Rightarrow> bool" where
  "countsInRange s =
     list_all (\<lambda>(ip, d). 1 \<le> count d \<and> count d \<le> MAX_REQUESTS) (DAList.impl_of (rateLimit s))"

text \<open>The ways an upstream call can fail. The first two are the ones the specification
  names; the third is a success response whose body is not JSON.\<close>

definition transportError :: "fetch_result \<Rightarrow> bool" where
  "transportError r = (case r of NetworkError \<Rightarrow> True | Response ok b \<Rightarrow> False)"

definition nonSuccessStatus :: "fetch_result \<Rightarrow> bool" where
  "nonSuccessStatus r = (case r of NetworkError \<Rightarrow> False | Response ok b \<Rightarrow> \<not> ok)"

definition bodyNotJson :: "fetch_result \<Rightarrow> bool" where
  "bodyNotJson r =
     (case r of NetworkError \<Rightarrow> False
      | Response ok b \<Rightarrow> ok \<and> (case b of NotJson \<Rightarrow> True | Json d \<Rightarrow> False))"

subsection \<open>Sample inputs\<close>

text \<open>A client, a sensor, a payload, upstream services and clock readings on which the
  properties below are run.\<close>

definition forwardedFor :: "string \<Rightarrow> string \<Rightarrow> string option" where
  "forwardedFor ip name = (if name = ''x-forwarded-for'' then Some ip else None)"

definition aRequest :: request where
  "aRequest = \<lparr>headers = forwardedFor ''203.0.113.7'', sensorId = ''12345''\<rparr>"

definition aReading :: PurpleAirData where
  "aReading =
     \<lparr>sensor = \<lparr>stats = \<lparr>pm2_5_10minute = 8.5\<rparr>, temperature = 71, humidity = 40\<rparr>\<rparr>"

definition upstreamUp :: "string \<Rightarrow> string \<Rightarrow> fetch_result" where
  "upstreamUp url key = Response True (Json aReading)"

definition upstreamGarbled :: "string \<Rightarrow> string \<Rightarrow> fetch_result" where
  "upstreamGarbled url key = Response True NotJson"

definition upstreamDown :: "string \<Rightarrow> string \<Rightarrow> fetch_result" where
  "upstreamDown url key = NetworkError"

text \<open>A world whose three clock readings are \<open>t\<close>, \<open>t + 1\<close> and \<open>t + 500\<close>.\<close>

definition worldAt :: "int \<Rightarrow> (string \<Rightarrow> string \<Rightarrow> fetch_result) \<Rightarrow> world" where
  "worldAt t up =
     \<lparr>now_check = t, now_get = t + 1, now_set = t + 500,
      PURPLE_AIR_API_KEY = Some ''secret'', fetch = up\<rparr>"

text \<open>Tables in which the sample client has used up its ten requests of the window
  that started at 0, and tables holding one stale and one fresh entry each.\<close>

definition exhausted :: state where
  "exhausted =
     \<lparr>rateLimit = DAList.update ''203.0.113.7'' \<lparr>count = 10, timestamp = 0\<rparr> DAList.empty,
      cache = DAList.empty\<rparr>"

definition mixed :: state where
  "mixed =
     \<lparr>rateLimit =
        DAList.update ''198.51.100.2'' \<lparr>count = 3, timestamp = 400000\<rparr>
          (DAList.update ''203.0.113.7'' \<lparr>count = 10, timestamp = 0\<rparr> DAList.empty),
      cache =
        DAList.update ''777'' \<lparr>data = aReading, cache_timestamp = 100000\<rparr>
          (DAList.update ''12345'' \<lparr>data = aReading, cache_timestamp = -1500000\<rparr> DAList.empty)\<rparr>"

section \<open>Properties\<close>

subsection \<open>Auxiliary facts\<close>

lemma lookup_impl_of: "DAList.lookup tbl k = Some d \<longleftrightarrow> (k, d) \<in> set (DAList.impl_of tbl)"
  by (simp add: DAList.lookup.rep_eq)

lemma lookup_sweepRateLimit_gen:
  "DAList.lookup (sweepRateLimit now xs tbl) k =
     (if \<exists>d. (k, d) \<in> set xs \<and> now - timestamp d > RATE_LIMIT_WINDOW then None
      else DAList.lookup tbl k)"
  by (induction xs arbitrary: tbl) auto

lemma lookup_sweepCache_gen:
  "DAList.lookup (sweepCache now xs tbl) k =
     (if \<exists>d. (k, d) \<in> set xs \<and> now - cache_timestamp d > CACHE_DURATION then None
      else DAList.lookup tbl k)"
  by (induction xs arbitrary: tbl) auto

lemma lookup_sweepRateLimit:
  "DAList.lookup (sweepRateLimit now (DAList.impl_of tbl) tbl) k =
     (case DAList.lookup tbl k of
        None \<Rightarrow> None
      | Some d \<Rightarrow> if now - timestamp d > RATE_LIMIT_WINDOW then None else Some d)"
  by (auto simp: lookup_sweepRateLimit_gen lookup_impl_of[symmetric] split: option.splits)

lemma lookup_sweepCache:
  "DAList.lookup (sweepCache now (DAList.impl_of tbl) tbl) k =
     (case DAList.lookup tbl k of
        None \<Rightarrow> None
      | Some d \<Rightarrow> if now - cache_timestamp d > CACHE_DURATION then None else Some d)"
  by (auto simp: lookup_sweepCache_gen lookup_impl_of[symmetric] split: option.splits)

lemma countsInRange_lookup:
  "countsInRange s \<longleftrightarrow>
     (\<forall>ip d. DAList.lookup (rateLimit s) ip = Some d \<longrightarrow> 1 \<le> count d \<and> count d \<le> MAX_REQUESTS)"
  by (auto simp: countsInRange_def list_all_iff lookup_impl_of)

lemma checkRateLimit_denied: "\<not> fst (checkRateLimit now ip s) \<Longrightarrow> snd (checkRateLimit now ip s) = s"
  by (auto simp: checkRateLimit_def split: option.splits if_splits)

lemma checkRateLimit_cache: "cache (snd (checkRateLimit now ip s)) = cache s"
  by (auto simp: checkRateLimit_def split: option.splits if_splits)

lemma serve_denied:
  "\<not> fst (checkRateLimit (now_check w) ip s) \<Longrightarrow>
     serve store ip w req s = \<lparr>response = rateLimited, fetched = [], tables = s\<rparr>"
  using checkRateLimit_denied[of "now_check w" ip s]
  by (cases "checkRateLimit (now_check w) ip s") (auto simp: serve_def)

lemma countsInRange_checkRateLimit:
  "countsInRange s \<Longrightarrow> countsInRange (snd (checkRateLimit now ip s))"
  unfolding countsInRange_lookup
  by (fastforce simp: checkRateLimit_def DAList.lookup_update MAX_REQUESTS_def split: option.splits if_splits)

lemma countsInRange_cleanup: "countsInRange s \<Longrightarrow> countsInRange (cleanup now s)"
  unfolding countsInRange_lookup
  by (auto simp: cleanup_def lookup_sweepRateLimit split: option.splits if_splits)

lemma countsInRange_setCachedData_v2: "countsInRange s \<Longrightarrow> countsInRange (setCachedData_v2 now k d s)"
  unfolding countsInRange_lookup
  by (auto simp: setCachedData_v2_def lookup_sweepRateLimit split: option.splits if_splits)

lemma rateLimit_getCachedData: "rateLimit (snd (getCachedData now k s)) = rateLimit s"
  by (auto simp: getCachedData_def split: option.splits)

lemma rateLimit_setCachedData: "rateLimit (setCachedData now k d s) = rateLimit s"
  by (simp add: setCachedData_def)

lemma checkRateLimit_opens:
  "opensWindow now ip s \<Longrightarrow>
     checkRateLimit now ip s =
       (True, s\<lparr>rateLimit := DAList.update ip \<lparr>count = 1, timestamp = now\<rparr> (rateLimit s)\<rparr>)"
  by (auto simp: opensWindow_def checkRateLimit_def split: option.splits)

lemma checkRateLimit_seq_Cons:
  "fst (checkRateLimit_seq ip (t # ts) s) =
     fst (checkRateLimit t ip s) # fst (checkRateLimit_seq ip ts (snd (checkRateLimit t ip s)))"
  "snd (checkRateLimit_seq ip (t # ts) s) =
     snd (checkRateLimit_seq ip ts (snd (checkRateLimit t ip s)))"
  by (simp_all split: prod.splits)

text \<open>Inside a window that started at \<open>t0\<close> with the count at \<open>c\<close>, \<open>n\<close> further calls
  are allowed as long as the count stays within the limit.\<close>

lemma checkRateLimit_seq_allowed:
  "DAList.lookup (rateLimit s) ip = Some \<lparr>count = c, timestamp = t0\<rparr> \<Longrightarrow>
   \<forall>t\<in>set ts. t - t0 \<le> RATE_LIMIT_WINDOW \<Longrightarrow>
   c + int (length ts) \<le> MAX_REQUESTS \<Longrightarrow>
   fst (checkRateLimit_seq ip ts s) = replicate (length ts) True \<and>
   DAList.lookup (rateLimit (snd (checkRateLimit_seq ip ts s))) ip =
     Some \<lparr>count = c + int (length ts), timestamp = t0\<rparr>"
proof (induction ts arbitrary: s c)
  case Nil
  then show ?case by simp
next
  case (Cons t ts)
  let ?s1 = "s\<lparr>rateLimit := DAList.update ip \<lparr>count = c + 1, timestamp = t0\<rparr> (rateLimit s)\<rparr>"
  from Cons.prems have step: "checkRateLimit t ip s = (True, ?s1)"
    by (simp add: checkRateLimit_def)
  have "DAList.lookup (rateLimit ?s1) ip = Some \<lparr>count = c + 1, timestamp = t0\<rparr>"
    by simp
  moreover from Cons.prems have "\<forall>t\<in>set ts. t - t0 \<le> RATE_LIMIT_WINDOW"
    and "(c + 1) + int (length ts) \<le> MAX_REQUESTS"
    by simp_all
  ultimately have IH:
    "fst (checkRateLimit_seq ip ts ?s1) = replicate (length ts) True \<and>
     DAList.lookup (rateLimit (snd (checkRateLimit_seq ip ts ?s1))) ip =
       Some \<lparr>count = (c + 1) + int (length ts), timestamp = t0\<rparr>"
    by (rule Cons.IH)
  show ?case
    using IH by (simp add: checkRateLimit_seq_Cons step del: checkRateLimit_seq.simps(2))
qed

lemma checkRateLimit_seq_append:
  "fst (checkRateLimit_seq ip (xs @ ys) s) =
     fst (checkRateLimit_seq ip xs s) @ fst (checkRateLimit_seq ip ys (snd (checkRateLimit_seq ip xs s)))"
  "snd (checkRateLimit_seq ip (xs @ ys) s) =
     snd (checkRateLimit_seq ip ys (snd (checkRateLimit_seq ip xs s)))"
  by (induction xs arbitrary: s) (simp_all add: checkRateLimit_seq_Cons del: checkRateLimit_seq.simps(2))

lemma impl_of_sweepRateLimit_gen:
  "DAList.impl_of (sweepRateLimit now xs tbl) =
     filter (\<lambda>(k, d). \<not> (\<exists>d'. (k, d') \<in> set xs \<and> now - timestamp d' > RATE_LIMIT_WINDOW))
       (DAList.impl_of tbl)"
proof (induction xs arbitrary: tbl)
  case Nil
  then show ?case by simp
next
  case (Cons x xs)
  obtain ip d where x: "x = (ip, d)" by (cases x)
  show ?case
    unfolding x sweepRateLimit.simps Cons.IH
    by (auto simp: DAList.delete.rep_eq AList.delete_eq intro!: filter_cong)
qed

lemma impl_of_sweepCache_gen:
  "DAList.impl_of (sweepCache now xs tbl) =
     filter (\<lambda>(k, d). \<not> (\<exists>d'. (k, d') \<in> set xs \<and> now - cache_timestamp d' > CACHE_DURATION))
       (DAList.impl_of tbl)"
proof (induction xs arbitrary: tbl)
  case Nil
  then show ?case by simp
next
  case (Cons x xs)
  obtain k d where x: "x = (k, d)" by (cases x)
  show ?case
    unfolding x sweepCache.simps Cons.IH
    by (auto simp: DAList.delete.rep_eq AList.delete_eq intro!: filter_cong)
qed

lemma same_key_same_entry:
  "(k, d) \<in> set (DAList.impl_of tbl) \<Longrightarrow> (k, d') \<in> set (DAList.impl_of tbl) \<Longrightarrow> d' = d"
  by (metis lookup_impl_of option.inject)

lemma impl_of_sweepRateLimit:
  "DAList.impl_of (sweepRateLimit now (DAList.impl_of tbl) tbl) =
     filter (\<lambda>(ip, d). \<not> now - timestamp d > RATE_LIMIT_WINDOW) (DAList.impl_of tbl)"
  unfolding impl_of_sweepRateLimit_gen
  by (rule filter_cong) (auto dest: same_key_same_entry)

lemma impl_of_sweepCache:
  "DAList.impl_of (sweepCache now (DAList.impl_of tbl) tbl) =
     filter (\<lambda>(k, d). \<not> now - cache_timestamp d > CACHE_DURATION) (DAList.impl_of tbl)"
  unfolding impl_of_sweepCache_gen
  by (rule filter_cong) (auto dest: same_key_same_entry)

lemma setCachedData_v2_cleanup: "setCachedData_v2 now k p s = setCachedData now k p (cleanup now s)"
  by (simp add: setCachedData_v2_def setCachedData_def cleanup_def Let_def)

lemma countsInRange_serve:
  assumes store: "\<And>now k d s. countsInRange s \<Longrightarrow> countsInRange (store now k d s)"
    and inv: "countsInRange s"
  shows "countsInRange (tables (serve store ip w req s))"
proof -
  obtain b s1 where check: "checkRateLimit (now_check w) ip s = (b, s1)"
    by (cases "checkRateLimit (now_check w) ip s")
  obtain r s2 where get: "getCachedData (now_get w) (sensorId req) s1 = (r, s2)"
    by (cases "getCachedData (now_get w) (sensorId req) s1")
  from inv check have s1: "countsInRange s1"
    using countsInRange_checkRateLimit[of s "now_check w" ip] by simp
  from get have "rateLimit s2 = rateLimit s1"
    using rateLimit_getCachedData[of "now_get w" "sensorId req" s1] by simp
  with s1 have s2: "countsInRange s2"
    by (simp add: countsInRange_def)
  show ?thesis
    using s1 s2 store[OF s2]
    by (simp add: serve_def check get Let_def
        split: bool.splits option.splits fetch_result.splits body_read.splits)
qed

lemma countsInRange_setCachedData: "countsInRange s \<Longrightarrow> countsInRange (setCachedData now k d s)"
  by (simp add: countsInRange_def setCachedData_def)

lemma countsInRange_put: "countsInRange s \<Longrightarrow> countsInRange (put rv now k d s)"
  by (cases rv) (simp_all add: countsInRange_setCachedData countsInRange_setCachedData_v2)

lemma delete_absent: "DAList.lookup tbl k = None \<Longrightarrow> DAList.delete k tbl = tbl"
  by (simp add: DAList.alist_eq_iff DAList.delete.rep_eq DAList.lookup.rep_eq map_of_eq_None_iff)

lemma getCachedData_after_check:
  "getCachedData now k (snd (checkRateLimit t ip s)) =
     (fst (getCachedData now k s),
      (snd (getCachedData now k s))\<lparr>rateLimit := rateLimit (snd (checkRateLimit t ip s))\<rparr>)"
  by (auto simp: getCachedData_def checkRateLimit_def split: option.splits)

text \<open>The handler's common text, by cases: denied; allowed and served from the cache;
  allowed, not in the cache, and the upstream call made.\<close>

lemma serve_hit:
  assumes "fst (checkRateLimit (now_check w) ip s)"
    and "fst (getCachedData (now_get w) (sensorId req) s) = Some d"
  shows "response (serve store ip w req s) = json d \<and> fetched (serve store ip w req s) = []"
proof -
  obtain s1 where check: "checkRateLimit (now_check w) ip s = (True, s1)"
    using assms(1) by (cases "checkRateLimit (now_check w) ip s") simp
  have "fst (getCachedData (now_get w) (sensorId req) s1) = Some d"
    using getCachedData_after_check[of "now_get w" "sensorId req" "now_check w" ip s] assms(2) check
    by simp
  then show ?thesis
    by (cases "getCachedData (now_get w) (sensorId req) s1") (simp add: serve_def check)
qed

lemma serve_miss:
  assumes "fst (checkRateLimit (now_check w) ip s)"
    and "fst (getCachedData (now_get w) (sensorId req) s) = None"
  shows "fetched (serve store ip w req s) = [upstreamCall w req] \<and>
         response (serve store ip w req s) =
           (case upstream w req of
              NetworkError \<Rightarrow> fetchFailed
            | Response ok b \<Rightarrow>
                if ok then (case b of NotJson \<Rightarrow> fetchFailed | Json d \<Rightarrow> json d) else fetchFailed) \<and>
         (\<forall>d. upstream w req = Response True (Json d) \<longrightarrow>
            cache (tables (serve store ip w req s)) =
              cache (store (now_set w) (sensorId req) d
                (snd (getCachedData (now_get w) (sensorId req) (snd (checkRateLimit (now_check w) ip s))))))"
proof -
  obtain s1 where check: "checkRateLimit (now_check w) ip s = (True, s1)"
    using assms(1) by (cases "checkRateLimit (now_check w) ip s") simp
  have "fst (getCachedData (now_get w) (sensorId req) s1) = None"
    using getCachedData_after_check[of "now_get w" "sensorId req" "now_check w" ip s] assms(2) check
    by simp
  then obtain s2 where get: "getCachedData (now_get w) (sensorId req) s1 = (None, s2)"
    by (cases "getCachedData (now_get w) (sensorId req) s1") simp
  show ?thesis
    by (simp add: serve_def check get upstreamCall_def upstream_def Let_def
        split: fetch_result.splits body_read.splits)
qed

lemma GET_serve: "GET w req s = serve setCachedData (clientIp req) w req s"
  by (simp add: GET_def serve_def clientIp_def)

lemma GET_v2_serve: "GET_v2 w req s = serve setCachedData_v2 (clientIp_v2 req) w req s"
  by (simp add: GET_v2_def serve_def clientIp_v2_def)

lemma handler_serve: "handler rv w req s = serve (put rv) (client rv req) w req s"
  by (cases rv) (simp_all add: GET_serve GET_v2_serve)


lemma status_simps [simp]:
  "status rateLimited = 429" "status fetchFailed = 500" "status (json d) = 200"
  by (simp_all add: rateLimited_def fetchFailed_def json_def)

lemma GET_first_fetch:
  "GET (worldAt 1000 upstreamUp) aRequest initial =
     \<lparr>response = json aReading,
      fetched = [(''https://api.purpleair.com/v1/sensors/12345'', ''secret'')],
      tables =
        \<lparr>rateLimit = DAList.update ''203.0.113.7'' \<lparr>count = 1, timestamp = 1000\<rparr> DAList.empty,
         cache = DAList.update ''12345'' \<lparr>data = aReading, cache_timestamp = 1500\<rparr> DAList.empty\<rparr>\<rparr>"
  by (simp add: GET_serve serve_def clientIp_def or_else_def aRequest_def forwardedFor_def
      worldAt_def initial_def checkRateLimit_def getCachedData_def setCachedData_def upstreamUp_def)

subsection \<open>The index conversion\<close>

text \<open>
  C2. The six boundary concentrations map to the ends of the bands:
  12.0 to 50, 12.1 to 51, 35.4 to 100, 35.5 to 101, 55.4 to 150 and 55.5 to 151.
\<close>

theorem calculateAQI_boundaries:
  "calculateAQI 12.0 = 50 \<and> calculateAQI 12.1 = 51 \<and>
   calculateAQI 35.4 = 100 \<and> calculateAQI 35.5 = 101 \<and>
   calculateAQI 55.4 = 150 \<and> calculateAQI 55.5 = 151"
  by (simp add: calculateAQI_def Math_round_def)





subsection \<open>Rate limiting\<close>

text \<open>
  C1. A client whose first call opens a window at \<open>t1\<close> (the table has no entry for
  it, or one whose window has passed, so the call records \<open>t1\<close> as the start of the
  window) and who makes ten more calls, each at most 300 seconds
  (\<open>RATE_LIMIT_WINDOW\<close> milliseconds) after \<open>t1\<close>, has its first ten calls allowed
  and the eleventh denied; the handler, in either revision, answers the eleventh
  request with the 429 response.
\<close>

theorem eleventh_request_denied:
  assumes fresh: "opensWindow t1 ip s"
    and ten: "length ts = 10"
    and within: "\<forall>t\<in>set ts. t - t1 \<le> RATE_LIMIT_WINDOW"
    and who: "client rv req = ip"
    and "when": "now_check w = last ts"
  shows "fst (checkRateLimit_seq ip (t1 # ts) s) = replicate 10 True @ [False] \<and>
         response (handler rv w req (snd (checkRateLimit_seq ip (t1 # butlast ts) s))) = rateLimited"
proof -
  let ?s1 = "snd (checkRateLimit t1 ip s)"
  let ?s10 = "snd (checkRateLimit_seq ip (butlast ts) ?s1)"
  from ten have ts: "ts = butlast ts @ [last ts]" and nine: "length (butlast ts) = 9"
    by (cases ts rule: rev_cases; simp)+
  have first: "fst (checkRateLimit t1 ip s)"
    and entry1: "DAList.lookup (rateLimit ?s1) ip = Some \<lparr>count = 1, timestamp = t1\<rparr>"
    using fresh by (simp_all add: checkRateLimit_opens)
  from within have "\<forall>t\<in>set (butlast ts). t - t1 \<le> RATE_LIMIT_WINDOW"
    by (meson in_set_butlastD)
  with entry1 nine
  have middle: "fst (checkRateLimit_seq ip (butlast ts) ?s1) = replicate 9 True"
    and entry10: "DAList.lookup (rateLimit ?s10) ip = Some \<lparr>count = 10, timestamp = t1\<rparr>"
    using checkRateLimit_seq_allowed[of ?s1 ip 1 t1 "butlast ts"]
    by (simp_all add: MAX_REQUESTS_def)
  from ts within have "last ts - t1 \<le> RATE_LIMIT_WINDOW"
    by (metis in_set_conv_decomp)
  with entry10 have denied: "\<not> fst (checkRateLimit (last ts) ip ?s10)"
    by (simp add: checkRateLimit_def MAX_REQUESTS_def)
  have "fst (checkRateLimit_seq ip (t1 # butlast ts @ [last ts]) s) = replicate 10 True @ [False]"
    using first middle denied
    by (simp add: checkRateLimit_seq_Cons checkRateLimit_seq_append del: checkRateLimit_seq.simps(2))
       (simp add: numeral_eq_Suc)
  with ts have calls: "fst (checkRateLimit_seq ip (t1 # ts) s) = replicate 10 True @ [False]"
    by simp
  have "snd (checkRateLimit_seq ip (t1 # butlast ts) s) = ?s10"
    by (simp add: checkRateLimit_seq_Cons del: checkRateLimit_seq.simps(2))
  moreover have "response (handler rv w req ?s10) = rateLimited"
    using denied who "when" by (cases rv) (simp_all add: GET_serve GET_v2_serve serve_denied)
  ultimately show ?thesis using calls by simp
qed

text \<open>
  The same on the empty tables, the eleventh call exactly 300 seconds after the first.
\<close>

theorem eleventh_request_denied_witness:
  "fst (checkRateLimit_seq ''203.0.113.7''
          [0, 1000, 2000, 3000, 4000, 5000, 6000, 7000, 8000, 9000, 300000] initial) =
     replicate 10 True @ [False] \<and>
   response (GET (worldAt 300000 upstreamUp) aRequest
     (snd (checkRateLimit_seq ''203.0.113.7''
        [0, 1000, 2000, 3000, 4000, 5000, 6000, 7000, 8000, 9000] initial))) = rateLimited"
  using eleventh_request_denied[of 0 "''203.0.113.7''" initial
      "[1000, 2000, 3000, 4000, 5000, 6000, 7000, 8000, 9000, 300000]"
      First aRequest "worldAt 300000 upstreamUp"]
  by (simp add: opensWindow_def initial_def RATE_LIMIT_WINDOW_def clientIp_def or_else_def
      aRequest_def forwardedFor_def worldAt_def)

text \<open>
  C9. Every count in the rate-limit table lies between 1 and 10. The empty table of a
  fresh process satisfies this, and the rate check, the periodic sweep, both cache
  operations and the whole handler (either revision) preserve it.
\<close>

theorem counts_stay_in_range:
  "countsInRange initial \<and>
   (countsInRange s \<longrightarrow>
      countsInRange (snd (checkRateLimit now ip s)) \<and>
      countsInRange (cleanup now s) \<and>
      countsInRange (snd (getCachedData now k s)) \<and>
      countsInRange (put rv now k d s) \<and>
      countsInRange (tables (handler rv w req s)))"
proof -
  have "countsInRange initial"
    by (simp add: countsInRange_def initial_def DAList.empty.rep_eq)
  moreover have "countsInRange (snd (getCachedData now k s))" if "countsInRange s"
    using that by (simp add: countsInRange_def rateLimit_getCachedData)
  moreover have "countsInRange (tables (handler rv w req s))" if "countsInRange s"
    using that
    by (cases rv)
       (simp_all add: GET_serve GET_v2_serve countsInRange_serve countsInRange_setCachedData
          countsInRange_setCachedData_v2)
  ultimately show ?thesis
    by (simp add: countsInRange_checkRateLimit countsInRange_cleanup countsInRange_put)
qed

text \<open>
  On the sample tables: a fourth request inside a running window raises the count from
  3 to 4, and the sweep and a handled request keep the counts in range.
\<close>

theorem counts_stay_in_range_witness:
  "countsInRange mixed \<and>
   countsInRange (snd (checkRateLimit 450000 ''198.51.100.2'' mixed)) \<and>
   DAList.lookup (rateLimit (snd (checkRateLimit 450000 ''198.51.100.2'' mixed))) ''198.51.100.2'' =
     Some \<lparr>count = 4, timestamp = 400000\<rparr> \<and>
   countsInRange (cleanup 500000 mixed) \<and>
   countsInRange (tables (GET_v2 (worldAt 500000 upstreamUp) aRequest mixed))"
proof -
  have mixed: "countsInRange mixed"
    by (simp add: countsInRange_def mixed_def DAList.update.rep_eq DAList.empty.rep_eq
        MAX_REQUESTS_def)
  have "DAList.lookup (rateLimit (snd (checkRateLimit 450000 ''198.51.100.2'' mixed))) ''198.51.100.2'' =
     Some \<lparr>count = 4, timestamp = 400000\<rparr>"
    by (simp add: checkRateLimit_def mixed_def RATE_LIMIT_WINDOW_def MAX_REQUESTS_def)
  then show ?thesis
    using mixed
      counts_stay_in_range[of mixed 450000 "''198.51.100.2''" k Second d w req]
      counts_stay_in_range[of mixed 500000 ip k Second d "worldAt 500000 upstreamUp" aRequest]
    by simp
qed

text \<open>
  C10. A request the rate check denies writes nothing: the check returns the tables as
  it found them, and the handler returns the 429 response with both tables unchanged
  and without an upstream call.
\<close>

theorem denial_writes_nothing:
  assumes "\<not> fst (checkRateLimit (now_check w) (client rv req) s)"
  shows "snd (checkRateLimit (now_check w) (client rv req) s) = s \<and>
         handler rv w req s = \<lparr>response = rateLimited, fetched = [], tables = s\<rparr>"
  using assms by (cases rv) (simp_all add: checkRateLimit_denied GET_serve GET_v2_serve serve_denied)

text \<open>
  The sample client, ten requests into its window, is denied five seconds after the
  window started.
\<close>

theorem denial_writes_nothing_witness:
  "\<not> fst (checkRateLimit 5000 ''203.0.113.7'' exhausted) \<and>
   snd (checkRateLimit 5000 ''203.0.113.7'' exhausted) = exhausted \<and>
   GET (worldAt 5000 upstreamUp) aRequest exhausted =
     \<lparr>response = rateLimited, fetched = [], tables = exhausted\<rparr>"
proof -
  have denied: "\<not> fst (checkRateLimit 5000 ''203.0.113.7'' exhausted)"
    by (simp add: checkRateLimit_def exhausted_def RATE_LIMIT_WINDOW_def MAX_REQUESTS_def)
  have ip: "client First aRequest = ''203.0.113.7''" and t: "now_check (worldAt 5000 upstreamUp) = 5000"
    by (simp_all add: clientIp_def or_else_def aRequest_def forwardedFor_def worldAt_def)
  show ?thesis
    using denied denial_writes_nothing[of "worldAt 5000 upstreamUp" First aRequest exhausted]
    by (simp add: ip t del: client.simps)
qed

subsection \<open>The cache and the sweep\<close>

text \<open>
  C5. \<open>getCachedData\<close> returns the stored payload exactly when the key has an entry
  whose age is strictly less than \<open>CACHE_DURATION\<close> (30 minutes), and then leaves the
  tables alone; otherwise it reports absence and the key has no entry afterwards.
  \<open>setCachedData\<close> (either revision) leaves the key with the given payload and the
  current reading of the clock, whatever was there before; the first revision touches
  no other entry.
\<close>

theorem cache_get_and_put:
  "fst (getCachedData now k s) =
     (case DAList.lookup (cache s) k of
        None \<Rightarrow> None
      | Some e \<Rightarrow> if now - cache_timestamp e < CACHE_DURATION then Some (data e) else None) \<and>
   (fst (getCachedData now k s) \<noteq> None \<longrightarrow> snd (getCachedData now k s) = s) \<and>
   (fst (getCachedData now k s) = None \<longrightarrow>
      snd (getCachedData now k s) = s\<lparr>cache := DAList.delete k (cache s)\<rparr> \<and>
      DAList.lookup (cache (snd (getCachedData now k s))) k = None) \<and>
   DAList.lookup (cache (put rv now k d s)) k = Some \<lparr>data = d, cache_timestamp = now\<rparr> \<and>
   (k' \<noteq> k \<longrightarrow>
      DAList.lookup (cache (setCachedData now k d s)) k' = DAList.lookup (cache s) k') \<and>
   rateLimit (setCachedData now k d s) = rateLimit s"
proof -
  have get: "fst (getCachedData now k s) =
     (case DAList.lookup (cache s) k of
        None \<Rightarrow> None
      | Some e \<Rightarrow> if now - cache_timestamp e < CACHE_DURATION then Some (data e) else None)"
    by (simp add: getCachedData_def split: option.splits)
  have hit: "snd (getCachedData now k s) = s" if "fst (getCachedData now k s) \<noteq> None"
    using that by (auto simp: getCachedData_def split: option.splits if_splits)
  have miss: "snd (getCachedData now k s) = s\<lparr>cache := DAList.delete k (cache s)\<rparr>"
    if "fst (getCachedData now k s) = None"
    using that by (auto simp: getCachedData_def delete_absent split: option.splits if_splits)
  have gone: "DAList.lookup (cache (snd (getCachedData now k s))) k = None"
    if "fst (getCachedData now k s) = None"
    using miss[OF that] by simp
  have put: "DAList.lookup (cache (put rv now k d s)) k = Some \<lparr>data = d, cache_timestamp = now\<rparr>"
    by (cases rv) (simp_all add: setCachedData_def setCachedData_v2_def Let_def)
  have frame: "DAList.lookup (cache (setCachedData now k d s)) k' = DAList.lookup (cache s) k'"
    if "k' \<noteq> k"
    using that by (simp add: setCachedData_def)
  show ?thesis
    using get hit miss gone put frame by (simp add: rateLimit_setCachedData)
qed

text \<open>
  On the sample tables: a fresh entry is returned, a stale one is dropped, an entry
  exactly 30 minutes old counts as stale, and a store overwrites.
\<close>

theorem cache_get_and_put_witness:
  "fst (getCachedData 500000 ''777'' mixed) = Some aReading \<and>
   snd (getCachedData 500000 ''777'' mixed) = mixed \<and>
   fst (getCachedData 500000 ''12345'' mixed) = None \<and>
   DAList.lookup (cache (snd (getCachedData 500000 ''12345'' mixed))) ''12345'' = None \<and>
   fst (getCachedData 1900000 ''777'' mixed) = None \<and>
   DAList.lookup (cache (setCachedData_v2 500000 ''777'' aReading mixed)) ''777'' =
     Some \<lparr>data = aReading, cache_timestamp = 500000\<rparr> \<and>
   DAList.lookup (cache (setCachedData 500000 ''12345'' aReading mixed)) ''777'' =
     Some \<lparr>data = aReading, cache_timestamp = 100000\<rparr>"
proof -
  have look: "DAList.lookup (cache mixed) ''777'' = Some \<lparr>data = aReading, cache_timestamp = 100000\<rparr>"
    "DAList.lookup (cache mixed) ''12345'' = Some \<lparr>data = aReading, cache_timestamp = -1500000\<rparr>"
    by (simp_all add: mixed_def)
  show ?thesis
    using cache_get_and_put[of 500000 "''777''" mixed Second aReading "''12345''"]
      cache_get_and_put[of 500000 "''12345''" mixed First aReading "''777''"]
      cache_get_and_put[of 1900000 "''777''" mixed First aReading "''777''"]
    by (simp add: look CACHE_DURATION_def)
qed

text \<open>
  C8. One run of the sweep at clock reading \<open>now\<close> leaves in the rate-limit table
  exactly the entries whose age does not exceed \<open>RATE_LIMIT_WINDOW\<close>, and in the
  cache exactly those whose age does not exceed \<open>CACHE_DURATION\<close>, unchanged and in
  their order; every older entry is gone. The second revision runs the same sweep at
  the start of \<open>setCachedData\<close>. (The timer that starts the sweep every five minutes
  is outside the model: \<open>now\<close> and the tables are arbitrary.)
\<close>

theorem sweep_removes_exactly_the_expired:
  "DAList.impl_of (rateLimit (cleanup now s)) =
     filter (\<lambda>(ip, d). \<not> now - timestamp d > RATE_LIMIT_WINDOW) (DAList.impl_of (rateLimit s)) \<and>
   DAList.impl_of (cache (cleanup now s)) =
     filter (\<lambda>(sensorId, d). \<not> now - cache_timestamp d > CACHE_DURATION) (DAList.impl_of (cache s)) \<and>
   DAList.lookup (rateLimit (cleanup now s)) ip =
     (case DAList.lookup (rateLimit s) ip of
        None \<Rightarrow> None
      | Some d \<Rightarrow> if now - timestamp d > RATE_LIMIT_WINDOW then None else Some d) \<and>
   DAList.lookup (cache (cleanup now s)) k =
     (case DAList.lookup (cache s) k of
        None \<Rightarrow> None
      | Some d \<Rightarrow> if now - cache_timestamp d > CACHE_DURATION then None else Some d) \<and>
   setCachedData_v2 now k p s = setCachedData now k p (cleanup now s)"
proof -
  have "rateLimit (cleanup now s) = sweepRateLimit now (DAList.impl_of (rateLimit s)) (rateLimit s)"
    and "cache (cleanup now s) = sweepCache now (DAList.impl_of (cache s)) (cache s)"
    by (simp_all add: cleanup_def Let_def)
  then show ?thesis
    by (simp only: impl_of_sweepRateLimit impl_of_sweepCache lookup_sweepRateLimit
        lookup_sweepCache setCachedData_v2_cleanup simp_thms)
qed

text \<open>
  A sweep of the sample tables at 500 seconds keeps the one young entry of each table.
\<close>

theorem sweep_removes_exactly_the_expired_witness:
  "DAList.impl_of (rateLimit (cleanup 500000 mixed)) =
     [(''198.51.100.2'', \<lparr>count = 3, timestamp = 400000\<rparr>)] \<and>
   DAList.impl_of (cache (cleanup 500000 mixed)) =
     [(''777'', \<lparr>data = aReading, cache_timestamp = 100000\<rparr>)] \<and>
   DAList.lookup (rateLimit (cleanup 500000 mixed)) ''203.0.113.7'' = None \<and>
   DAList.lookup (cache (cleanup 500000 mixed)) ''12345'' = None"
  using sweep_removes_exactly_the_expired[of 500000 mixed "''203.0.113.7''" "''12345''"]
  by (simp add: mixed_def DAList.update.rep_eq DAList.empty.rep_eq RATE_LIMIT_WINDOW_def
      CACHE_DURATION_def)



subsection \<open>The responses of the handler\<close>

text \<open>
  C7, as the code has it. The handler answers 429 exactly when the rate check denies
  the caller, and then with the rate-limit message. It answers 500 exactly when it made
  the upstream call and the call failed in one of three ways: a transport-level error,
  a non-success status, or a success response whose body is not JSON; the message is
  the same for all three. In every other case it answers with a payload: the cached
  one, without an upstream call, or the one the upstream just returned.
\<close>

theorem handler_signals_failures:
  "(status (response (handler rv w req s)) = 429 \<longleftrightarrow>
      \<not> fst (checkRateLimit (now_check w) (client rv req) s)) \<and>
   (status (response (handler rv w req s)) = 429 \<longrightarrow> response (handler rv w req s) = rateLimited) \<and>
   (status (response (handler rv w req s)) = 500 \<longleftrightarrow>
      fetched (handler rv w req s) = [upstreamCall w req] \<and>
      (transportError (upstream w req) \<or> nonSuccessStatus (upstream w req) \<or>
       bodyNotJson (upstream w req))) \<and>
   (status (response (handler rv w req s)) = 500 \<longrightarrow> response (handler rv w req s) = fetchFailed) \<and>
   (status (response (handler rv w req s)) \<noteq> 429 \<and> status (response (handler rv w req s)) \<noteq> 500 \<longrightarrow>
      (\<exists>d. response (handler rv w req s) = json d \<and>
           (fst (getCachedData (now_get w) (sensorId req) s) = Some d \<and>
              fetched (handler rv w req s) = [] \<or>
            fst (getCachedData (now_get w) (sensorId req) s) = None \<and>
              upstream w req = Response True (Json d) \<and>
              fetched (handler rv w req s) = [upstreamCall w req])))"
proof (cases "fst (checkRateLimit (now_check w) (client rv req) s)")
  case False
  then have "handler rv w req s = \<lparr>response = rateLimited, fetched = [], tables = s\<rparr>"
    by (simp add: handler_serve serve_denied)
  with False show ?thesis by simp
next
  case allowed: True
  show ?thesis
  proof (cases "fst (getCachedData (now_get w) (sensorId req) s)")
    case (Some d)
    with allowed show ?thesis
      using serve_hit[of w "client rv req" s req d "put rv"] by (simp add: handler_serve)
  next
    case None
    note miss = serve_miss[OF allowed None, of "put rv"]
    show ?thesis
    proof (cases "upstream w req")
      case NetworkError
      with allowed None miss show ?thesis
        by (simp add: handler_serve transportError_def)
    next
      case (Response ok b)
      show ?thesis
      proof (cases ok)
        case False
        with Response allowed None miss show ?thesis
          by (simp add: handler_serve nonSuccessStatus_def)
      next
        case True
        with Response allowed None miss show ?thesis
          by (cases b)
             (simp_all add: handler_serve transportError_def nonSuccessStatus_def bodyNotJson_def)
      qed
    qed
  qed
qed

text \<open>
  A denied request, a request that finds the upstream down, and a served request.
\<close>

theorem handler_signals_failures_witness:
  "status (response (GET (worldAt 5000 upstreamUp) aRequest exhausted)) = 429 \<and>
   response (GET (worldAt 400000 upstreamDown) aRequest exhausted) = fetchFailed \<and>
   response (GET (worldAt 1000 upstreamUp) aRequest initial) = json aReading"
proof -
  have ip: "clientIp aRequest = ''203.0.113.7''"
    by (simp add: clientIp_def or_else_def aRequest_def forwardedFor_def)
  have denied: "\<not> fst (checkRateLimit 5000 ''203.0.113.7'' exhausted)"
    and allowed: "fst (checkRateLimit 400000 ''203.0.113.7'' exhausted)"
    by (simp_all add: checkRateLimit_def exhausted_def RATE_LIMIT_WINDOW_def MAX_REQUESTS_def)
  have calls: "fetched (GET (worldAt 400000 upstreamDown) aRequest exhausted) =
      [upstreamCall (worldAt 400000 upstreamDown) aRequest]"
    by (simp add: GET_serve serve_def ip checkRateLimit_def getCachedData_def exhausted_def
        RATE_LIMIT_WINDOW_def worldAt_def upstreamDown_def upstreamCall_def)
  have down: "transportError (upstream (worldAt 400000 upstreamDown) aRequest)"
    by (simp add: transportError_def upstream_def worldAt_def upstreamDown_def)
  have times: "now_check (worldAt 5000 upstreamUp) = 5000"
    "now_check (worldAt 400000 upstreamDown) = 400000"
    by (simp_all add: worldAt_def)
  show ?thesis
    using handler_signals_failures[of First "worldAt 5000 upstreamUp" aRequest exhausted]
      handler_signals_failures[of First "worldAt 400000 upstreamDown" aRequest exhausted]
      denied allowed calls down
    by (simp add: ip times GET_first_fetch)
qed

text \<open>
  C7 as stated fails: a success response whose body is not JSON is answered with 500,
  although the upstream call met neither a transport-level error nor a non-success
  status.
\<close>

theorem garbled_body_counterexample:
  "status (response (GET (worldAt 1000 upstreamGarbled) aRequest initial)) = 500 \<and>
   fetched (GET (worldAt 1000 upstreamGarbled) aRequest initial) =
     [upstreamCall (worldAt 1000 upstreamGarbled) aRequest] \<and>
   \<not> transportError (upstream (worldAt 1000 upstreamGarbled) aRequest) \<and>
   \<not> nonSuccessStatus (upstream (worldAt 1000 upstreamGarbled) aRequest)"
  by (simp add: GET_serve serve_def clientIp_def or_else_def aRequest_def forwardedFor_def
      worldAt_def initial_def checkRateLimit_def getCachedData_def upstreamGarbled_def
      upstreamCall_def upstream_def transportError_def nonSuccessStatus_def)

end
